theory Spec2Isabelle
  imports Main "HOL-Library.Word" "HOL-Library.Monad_Syntax"
begin

section \<open>Enumerations (x402/core/enums.py)\<close>

text \<open>
  Both enumerations derive from plain \<^verbatim>\<open>Enum\<close> (no \<^verbatim>\<open>str\<close> mixin): a member is an object
  of its own class whose \<^verbatim>\<open>.value\<close> is the wire string.
\<close>

datatype PaymentScheme = EXACT

datatype PaymentNetwork = BASE_SEPOLIA | BASE_MAINNET | ETHEREUM_SEPOLIA | ETHEREUM_MAINNET

fun PaymentScheme_value :: "PaymentScheme \<Rightarrow> string" where
  "PaymentScheme_value EXACT = ''exact''"

fun PaymentNetwork_value :: "PaymentNetwork \<Rightarrow> string" where
  "PaymentNetwork_value BASE_SEPOLIA = ''base-sepolia''"
| "PaymentNetwork_value BASE_MAINNET = ''base-mainnet''"
| "PaymentNetwork_value ETHEREUM_SEPOLIA = ''ethereum-sepolia''"
| "PaymentNetwork_value ETHEREUM_MAINNET = ''ethereum-mainnet''"

text \<open>Looking a member up by its value, as \<^verbatim>\<open>PaymentScheme("exact")\<close> does.\<close>

definition PaymentScheme_of_value :: "string \<Rightarrow> PaymentScheme option" where
  "PaymentScheme_of_value s = find (\<lambda>m. PaymentScheme_value m = s) [EXACT]"

definition PaymentNetwork_of_value :: "string \<Rightarrow> PaymentNetwork option" where
  "PaymentNetwork_of_value s =
     find (\<lambda>m. PaymentNetwork_value m = s)
       [BASE_SEPOLIA, BASE_MAINNET, ETHEREUM_SEPOLIA, ETHEREUM_MAINNET]"

section \<open>Python values\<close>

text \<open>
  The objects that travel through the client: what \<^verbatim>\<open>response.json()\<close> returns (None,
  bool, int, float, str, list, dict with string keys), and the enum members that the
  models hold in their \<^verbatim>\<open>scheme\<close> and \<^verbatim>\<open>network\<close> fields. A float is carried as the text
  of its \<^verbatim>\<open>repr\<close>; the code never computes with one. A dict is an association list in
  insertion order, read with \<open>map_of\<close>. Strings range over the code points 0..255.
\<close>

datatype pyval =
    PyNone
  | PyBool bool
  | PyInt int
  | PyFloat string
  | PyStr string
  | PyList "pyval list"
  | PyDict "(string \<times> pyval) list"
  | PyScheme PaymentScheme
  | PyNetwork PaymentNetwork

section \<open>The data model (x402/core/models.py)\<close>

record PaymentRequirement =
  scheme :: PaymentScheme
  network :: PaymentNetwork
  max_amount_required :: string
  resource :: string
  description :: string
  mime_type :: string
  pay_to :: string
  max_timeout_seconds :: int
  asset :: string
  output_schema :: "(string \<times> pyval) list option"
  extra :: "(string \<times> pyval) list option"

record PaymentRequiredResponse =
  resp_x402_version :: int
  accepts :: "PaymentRequirement list"
  resp_error :: "string option"

record PaymentPayload =
  x402_version :: int
  payload_scheme :: PaymentScheme
  payload_network :: PaymentNetwork
  payload :: "(string \<times> pyval) list"

section \<open>Exceptions\<close>

text \<open>
  Every exception the code raises or lets through is a value. \<open>JSONDecodeError\<close> (raised by
  \<^verbatim>\<open>response.json()\<close>) and \<open>ValidationError\<close> (raised by pydantic) are subclasses of
  \<^verbatim>\<open>ValueError\<close>; \<open>KeyError\<close> and \<open>TypeError\<close> are not. \<open>X402PaymentRequiredError\<close>
  (x402/core/errors.py) carries a message and a requirement list; its message is kept
  structured: what was formatted into it. \<open>CollaboratorError\<close> is whatever the HTTP
  transport or the signing primitive raises.
\<close>

datatype error =
    ValueError string
  | JSONDecodeError
  | ValidationError
  | KeyError string
  | TypeError string
  | CollaboratorError string
  | X402PaymentRequiredError x402_message "PaymentRequirement list"
and x402_message =
    Payment_required pyval
  | Invalid_402_response error

text \<open>The clause \<^verbatim>\<open>except (ValueError, KeyError)\<close>: which exceptions it catches.\<close>

fun is_ValueError_or_KeyError :: "error \<Rightarrow> bool" where
  "is_ValueError_or_KeyError (ValueError _) = True"
| "is_ValueError_or_KeyError JSONDecodeError = True"
| "is_ValueError_or_KeyError ValidationError = True"
| "is_ValueError_or_KeyError (KeyError _) = True"
| "is_ValueError_or_KeyError _ = False"

text \<open>
  The error kinds of the specification, as the code raises them: \<open>TokenNotFound\<close> is the
  \<^verbatim>\<open>ValueError\<close> of \<^verbatim>\<open>_get_token_name\<close> and \<^verbatim>\<open>_get_token_version\<close>, \<open>NoPaymentOptions\<close> the
  \<^verbatim>\<open>ValueError\<close> of \<^verbatim>\<open>auto_pay_request\<close>, and the two protocol signals are the two ways
  \<^verbatim>\<open>request\<close> builds an \<open>X402PaymentRequiredError\<close>.
\<close>

definition TokenNotFound :: "string \<Rightarrow> string \<Rightarrow> error" where
  "TokenNotFound chain_id address =
     ValueError (''Token not found for chain '' @ chain_id @ '' and address '' @ address)"

definition NoPaymentOptions :: error where
  "NoPaymentOptions = ValueError ''No payment options available''"

definition PaymentRequired :: "pyval \<Rightarrow> PaymentRequirement list \<Rightarrow> error" where
  "PaymentRequired data requirements = X402PaymentRequiredError (Payment_required data) requirements"

definition MalformedRequirementsResponse :: "error \<Rightarrow> error" where
  "MalformedRequirementsResponse e = X402PaymentRequiredError (Invalid_402_response e) []"

section \<open>Python built-ins the code calls\<close>

text \<open>\<^verbatim>\<open>str(n)\<close> and \<^verbatim>\<open>hex(n)\<close> of an int.\<close>

definition digit_char :: "nat \<Rightarrow> char" where
  "digit_char d = ''0123456789abcdef'' ! (d mod 16)"

fun digits :: "nat \<Rightarrow> nat \<Rightarrow> string" where
  "digits b n =
     (if b < 2 \<or> n < b then [digit_char n] else digits b (n div b) @ [digit_char (n mod b)])"

declare digits.simps [simp del]

definition py_str :: "int \<Rightarrow> string" where
  "py_str i = (if i < 0 then CHR ''-'' # digits 10 (nat (- i)) else digits 10 (nat i))"

definition py_hex :: "int \<Rightarrow> string" where
  "py_hex i = (if i < 0 then ''-0x'' @ digits 16 (nat (- i)) else ''0x'' @ digits 16 (nat i))"

text \<open>
  \<^verbatim>\<open>json.dumps(data, separators=(',', ':'))\<close>. The encoder writes None, bool, int, float,
  str, list and dict; for any other object its \<^verbatim>\<open>default\<close> hook raises \<^verbatim>\<open>TypeError\<close>, and
  a member of a plain \<^verbatim>\<open>Enum\<close> is such an object. Items are written in order and the first
  failure aborts the call. With \<^verbatim>\<open>ensure_ascii\<close> (the default) every character outside
  \<^verbatim>\<open>' '..'~'\<close> is escaped.
\<close>

definition json_escape_char :: "char \<Rightarrow> string" where
  "json_escape_char c =
     (let n = (of_char c :: nat) in
      if c = CHR 0x22 then [CHR 0x5C, CHR 0x22]
      else if c = CHR 0x5C then [CHR 0x5C, CHR 0x5C]
      else if c = CHR 0x0A then [CHR 0x5C, CHR ''n'']
      else if c = CHR 0x0D then [CHR 0x5C, CHR ''r'']
      else if c = CHR 0x09 then [CHR 0x5C, CHR ''t'']
      else if c = CHR 0x0C then [CHR 0x5C, CHR ''f'']
      else if c = CHR 0x08 then [CHR 0x5C, CHR ''b'']
      else if 32 \<le> n \<and> n \<le> 126 then [c]
      else [CHR 0x5C, CHR ''u'', CHR ''0'', CHR ''0'', digit_char (n div 16), digit_char (n mod 16)])"

definition json_string :: "string \<Rightarrow> string" where
  "json_string s = [CHR 0x22] @ concat (map json_escape_char s) @ [CHR 0x22]"

fun join :: "string \<Rightarrow> string list \<Rightarrow> string" where
  "join sep [] = []"
| "join sep [x] = x"
| "join sep (x # y # ys) = x @ sep @ join sep (y # ys)"

fun sequence_err :: "(error + 'a) list \<Rightarrow> error + 'a list" where
  "sequence_err [] = Inr []"
| "sequence_err (Inl e # rs) = Inl e"
| "sequence_err (Inr x # rs) = (case sequence_err rs of Inl e \<Rightarrow> Inl e | Inr xs \<Rightarrow> Inr (x # xs))"

fun json_dumps :: "pyval \<Rightarrow> error + string" where
  "json_dumps PyNone = Inr ''null''"
| "json_dumps (PyBool b) = Inr (if b then ''true'' else ''false'')"
| "json_dumps (PyInt i) = Inr (py_str i)"
| "json_dumps (PyFloat r) = Inr r"
| "json_dumps (PyStr s) = Inr (json_string s)"
| "json_dumps (PyList xs) =
     (case sequence_err (map json_dumps xs) of
        Inl e \<Rightarrow> Inl e
      | Inr ys \<Rightarrow> Inr (''['' @ join '','' ys @ '']''))"
| "json_dumps (PyDict kvs) =
     (case sequence_err
             (map (\<lambda>kv. case json_dumps (snd kv) of
                           Inl e \<Rightarrow> Inl e
                         | Inr y \<Rightarrow> Inr (json_string (fst kv) @ '':'' @ y)) kvs) of
        Inl e \<Rightarrow> Inl e
      | Inr ys \<Rightarrow> Inr (''{'' @ join '','' ys @ ''}''))"
| "json_dumps (PyScheme m) =
     Inl (TypeError ''Object of type PaymentScheme is not JSON serializable'')"
| "json_dumps (PyNetwork m) =
     Inl (TypeError ''Object of type PaymentNetwork is not JSON serializable'')"

text \<open>\<^verbatim>\<open>str.encode()\<close> (UTF-8) and \<^verbatim>\<open>base64.b64encode(...).decode()\<close>.\<close>

type_synonym byte = "8 word"

definition str_encode :: "string \<Rightarrow> byte list" where
  "str_encode s =
     concat (map (\<lambda>c. let n = (of_char c :: nat) in
                        if n < 128 then [of_nat n]
                        else [of_nat (192 + n div 64), of_nat (128 + n mod 64)]) s)"

definition b64_char :: "nat \<Rightarrow> char" where
  "b64_char n =
     ''ABCDEFGHIJKLMNOPQRSTUVWXYZabcdefghijklmnopqrstuvwxyz0123456789+/'' ! (n mod 64)"

fun b64encode :: "byte list \<Rightarrow> string" where
  "b64encode [] = []"
| "b64encode [a] =
     (let n = unat a in [b64_char (n div 4), b64_char (n mod 4 * 16), CHR ''='', CHR ''=''])"
| "b64encode [a, b] =
     (let n = unat a * 256 + unat b in
      [b64_char (n div 1024), b64_char (n div 16 mod 64), b64_char (n mod 16 * 4), CHR ''=''])"
| "b64encode (a # b # c # rest) =
     (let n = unat a * 65536 + unat b * 256 + unat c in
      [b64_char (n div 262144), b64_char (n div 4096 mod 64), b64_char (n div 64 mod 64),
       b64_char (n mod 64)] @ b64encode rest)"

text \<open>\<^verbatim>\<open>PaymentPayload.to_header\<close>: the dict holds the model's enum members themselves.\<close>

definition to_header :: "PaymentPayload \<Rightarrow> error + string" where
  "to_header self =
     (let data = PyDict
            [(''x402Version'', PyInt (x402_version self)),
             (''scheme'', PyScheme (payload_scheme self)),
             (''network'', PyNetwork (payload_network self)),
             (''payload'', PyDict (payload self))]
      in case json_dumps data of
           Inl e \<Rightarrow> Inl e
         | Inr json_str \<Rightarrow> Inr (b64encode (str_encode json_str)))"

section \<open>Validation of incoming requirements (pydantic)\<close>

text \<open>
  \<^verbatim>\<open>PaymentRequirement.model_validate(obj)\<close>: \<open>obj\<close> must be a dict; every field declared
  with \<^verbatim>\<open>Field(...)\<close> or without a default must be present under its alias; a \<^verbatim>\<open>str\<close> field
  takes a str, an enum field a member or the value of a member, a \<^verbatim>\<open>dict | None\<close> field a
  dict or None. An \<^verbatim>\<open>int\<close> field takes an int; what else pydantic's lax mode converts to an
  int (numeric strings, floats without a fractional part) is the parameter \<open>lax\<close>. Every
  failure is one \<open>ValidationError\<close>.
\<close>

definition required_str :: "(string \<times> pyval) list \<Rightarrow> string \<Rightarrow> string option" where
  "required_str obj k = (case map_of obj k of Some (PyStr s) \<Rightarrow> Some s | _ \<Rightarrow> None)"

definition required_int ::
  "(pyval \<Rightarrow> int option) \<Rightarrow> (string \<times> pyval) list \<Rightarrow> string \<Rightarrow> int option" where
  "required_int lax obj k =
     (case map_of obj k of None \<Rightarrow> None | Some (PyInt n) \<Rightarrow> Some n | Some v \<Rightarrow> lax v)"

definition required_scheme :: "(string \<times> pyval) list \<Rightarrow> string \<Rightarrow> PaymentScheme option" where
  "required_scheme obj k =
     (case map_of obj k of
        Some (PyStr s) \<Rightarrow> PaymentScheme_of_value s
      | Some (PyScheme m) \<Rightarrow> Some m
      | _ \<Rightarrow> None)"

definition required_network :: "(string \<times> pyval) list \<Rightarrow> string \<Rightarrow> PaymentNetwork option" where
  "required_network obj k =
     (case map_of obj k of
        Some (PyStr s) \<Rightarrow> PaymentNetwork_of_value s
      | Some (PyNetwork m) \<Rightarrow> Some m
      | _ \<Rightarrow> None)"

definition optional_dict ::
  "(string \<times> pyval) list \<Rightarrow> string \<Rightarrow> (string \<times> pyval) list option option" where
  "optional_dict obj k =
     (case map_of obj k of
        None \<Rightarrow> Some None
      | Some PyNone \<Rightarrow> Some None
      | Some (PyDict d) \<Rightarrow> Some (Some d)
      | _ \<Rightarrow> None)"

definition optional_str :: "(string \<times> pyval) list \<Rightarrow> string \<Rightarrow> string option option" where
  "optional_str obj k =
     (case map_of obj k of
        None \<Rightarrow> Some None
      | Some PyNone \<Rightarrow> Some None
      | Some (PyStr s) \<Rightarrow> Some (Some s)
      | _ \<Rightarrow> None)"

definition model_validate :: "(pyval \<Rightarrow> int option) \<Rightarrow> pyval \<Rightarrow> error + PaymentRequirement" where
  "model_validate lax obj =
     (case obj of
        PyDict kvs \<Rightarrow>
          (case do {
                  f_scheme \<leftarrow> required_scheme kvs ''scheme'';
                  f_network \<leftarrow> required_network kvs ''network'';
                  f_amount \<leftarrow> required_str kvs ''maxAmountRequired'';
                  f_resource \<leftarrow> required_str kvs ''resource'';
                  f_description \<leftarrow> required_str kvs ''description'';
                  f_mime \<leftarrow> required_str kvs ''mimeType'';
                  f_pay_to \<leftarrow> required_str kvs ''payTo'';
                  f_timeout \<leftarrow> required_int lax kvs ''maxTimeoutSeconds'';
                  f_asset \<leftarrow> required_str kvs ''asset'';
                  f_schema \<leftarrow> optional_dict kvs ''outputSchema'';
                  f_extra \<leftarrow> optional_dict kvs ''extra'';
                  Some \<lparr>scheme = f_scheme, network = f_network, max_amount_required = f_amount,
                        resource = f_resource, description = f_description, mime_type = f_mime,
                        pay_to = f_pay_to, max_timeout_seconds = f_timeout, asset = f_asset,
                        output_schema = f_schema, extra = f_extra\<rparr>
                } of
             None \<Rightarrow> Inl ValidationError
           | Some r \<Rightarrow> Inr r)
      | _ \<Rightarrow> Inl ValidationError)"

text \<open>
  \<^verbatim>\<open>PaymentRequiredResponse\<close> as models.py declares it: \<^verbatim>\<open>x402Version\<close> and \<^verbatim>\<open>accepts\<close> are
  required, \<^verbatim>\<open>accepts\<close> is a list of requirements, \<^verbatim>\<open>error\<close> is optional. The client never
  calls this validator; it is here to say which bodies the model class accepts.
\<close>

definition PaymentRequiredResponse_model_validate ::
  "(pyval \<Rightarrow> int option) \<Rightarrow> pyval \<Rightarrow> error + PaymentRequiredResponse" where
  "PaymentRequiredResponse_model_validate lax obj =
     (case obj of
        PyDict kvs \<Rightarrow>
          (case do {
                  f_version \<leftarrow> required_int lax kvs ''x402Version'';
                  f_accepts \<leftarrow> (case map_of kvs ''accepts'' of
                                  Some (PyList xs) \<Rightarrow>
                                    (case sequence_err (map (model_validate lax) xs) of
                                       Inl e \<Rightarrow> None
                                     | Inr rs \<Rightarrow> Some rs)
                                | _ \<Rightarrow> None);
                  f_error \<leftarrow> optional_str kvs ''error'';
                  Some \<lparr>resp_x402_version = f_version, accepts = f_accepts, resp_error = f_error\<rparr>
                } of
             None \<Rightarrow> Inl ValidationError
           | Some r \<Rightarrow> Inr r)
      | _ \<Rightarrow> Inl ValidationError)"

text \<open>Subscription \<^verbatim>\<open>data["accepts"]\<close> and iteration \<^verbatim>\<open>for req in ...\<close> over a Python value.\<close>

fun py_getitem :: "pyval \<Rightarrow> string \<Rightarrow> error + pyval" where
  "py_getitem (PyDict kvs) k = (case map_of kvs k of None \<Rightarrow> Inl (KeyError k) | Some v \<Rightarrow> Inr v)"
| "py_getitem (PyList xs) k = Inl (TypeError ''list indices must be integers or slices, not str'')"
| "py_getitem (PyStr s) k = Inl (TypeError ''string indices must be integers'')"
| "py_getitem v k = Inl (TypeError ''object is not subscriptable'')"

fun py_iter :: "pyval \<Rightarrow> error + pyval list" where
  "py_iter (PyList xs) = Inr xs"
| "py_iter (PyDict kvs) = Inr (map (\<lambda>kv. PyStr (fst kv)) kvs)"
| "py_iter (PyStr s) = Inr (map (\<lambda>c. PyStr [c]) s)"
| "py_iter v = Inl (TypeError ''object is not iterable'')"

section \<open>The token registry and the signer (x402/client/signer.py)\<close>

record token =
  token_human_name :: string
  token_address :: string
  token_name :: string
  token_decimals :: int
  token_version :: string

definition KNOWN_TOKENS :: "(string \<times> token list) list" where
  "KNOWN_TOKENS =
     [(''84532'',
       [\<lparr>token_human_name = ''usdc'',
         token_address = ''0x036CbD53842c5426634e7929541eC2318f3dCF7e'',
         token_name = ''USDC'', token_decimals = 6, token_version = ''2''\<rparr>]),
      (''8453'',
       [\<lparr>token_human_name = ''usdc'',
         token_address = ''0x833589fCD6eDb6E08f4c7C32D4f71b54bdA02913'',
         token_name = ''USD Coin'', token_decimals = 6, token_version = ''2''\<rparr>]),
      (''43113'',
       [\<lparr>token_human_name = ''usdc'',
         token_address = ''0x5425890298aed601595a70AB815c96711a31Bc65'',
         token_name = ''USD Coin'', token_decimals = 6, token_version = ''2''\<rparr>]),
      (''43114'',
       [\<lparr>token_human_name = ''usdc'',
         token_address = ''0xB97EF9Ef8734C71904D8002F8b6Bc66Dd9c48a6E'',
         token_name = ''USDC'', token_decimals = 6, token_version = ''2''\<rparr>])]"

text \<open>\<^verbatim>\<open>_get_chain_id\<close>: the table as written, with \<^verbatim>\<open>.get(network, 1)\<close> as the fallback.\<close>

definition chain_ids :: "(PaymentNetwork \<times> int) list" where
  "chain_ids =
     [(ETHEREUM_MAINNET, 1), (ETHEREUM_SEPOLIA, 11155111), (BASE_MAINNET, 8453),
      (BASE_SEPOLIA, 8453)]"

definition get_chain_id :: "PaymentNetwork \<Rightarrow> int" where
  "get_chain_id net = (case map_of chain_ids net of Some c \<Rightarrow> c | None \<Rightarrow> 1)"

text \<open>
  \<^verbatim>\<open>_get_token_name\<close> and \<^verbatim>\<open>_get_token_version\<close>: \<^verbatim>\<open>KNOWN_TOKENS[chain_id]\<close> raises
  \<^verbatim>\<open>KeyError\<close> for a chain the registry does not hold; the loop returns at the first token
  with the address, and the \<^verbatim>\<open>raise ValueError\<close> after the loop is \<open>TokenNotFound\<close>.
\<close>

definition get_token_name :: "string \<Rightarrow> string \<Rightarrow> error + string" where
  "get_token_name chain_id address =
     (case map_of KNOWN_TOKENS chain_id of
        None \<Rightarrow> Inl (KeyError chain_id)
      | Some tokens \<Rightarrow>
          (case find (\<lambda>t. token_address t = address) tokens of
             Some t \<Rightarrow> Inr (token_name t)
           | None \<Rightarrow> Inl (TokenNotFound chain_id address)))"

definition get_token_version :: "string \<Rightarrow> string \<Rightarrow> error + string" where
  "get_token_version chain_id address =
     (case map_of KNOWN_TOKENS chain_id of
        None \<Rightarrow> Inl (KeyError chain_id)
      | Some tokens \<Rightarrow>
          (case find (\<lambda>t. token_address t = address) tokens of
             Some t \<Rightarrow> Inr (token_version t)
           | None \<Rightarrow> Inl (TokenNotFound chain_id address)))"

text \<open>
  The EIP-712 structures handed to the signing primitive, and the account held by the
  signer: its address and \<^verbatim>\<open>sign_typed_data\<close>, which may raise.
\<close>

record eip712_domain =
  domain_name :: string
  domain_version :: string
  domain_chainId :: int
  domain_verifyingContract :: string

record transfer_message =
  msg_from :: string
  msg_to :: string
  msg_value :: string
  msg_validAfter :: int
  msg_validBefore :: int
  msg_nonce :: string

record signature =
  sig_r :: int
  sig_s :: int
  sig_v :: int

definition message_types :: "(string \<times> (string \<times> string) list) list" where
  "message_types =
     [(''EIP712Domain'',
       [(''name'', ''string''), (''version'', ''string''), (''chainId'', ''uint256''),
        (''verifyingContract'', ''address'')]),
      (''TransferWithAuthorization'',
       [(''from'', ''address''), (''to'', ''address''), (''value'', ''uint256''),
        (''validAfter'', ''uint256''), (''validBefore'', ''uint256''), (''nonce'', ''bytes32'')])]"

record account =
  address :: string
  sign_typed_data ::
    "eip712_domain \<Rightarrow> (string \<times> (string \<times> string) list) list \<Rightarrow> transfer_message
       \<Rightarrow> error + signature"

record SimpleX402Signer =
  account :: account

section \<open>The world outside the client\<close>

text \<open>
  What the code reads and changes besides its arguments: the HTTP session (a server
  that answers a request knowing the requests sent before, and the log of requests
  sent), the clock (the successive values of \<^verbatim>\<open>int(time.time())\<close>), the operating system's
  randomness (a tape of bytes), the log of calls to \<^verbatim>\<open>sign_typed_data\<close>, and the heap of
  header dicts (with the next free address), which a caller and the client share by
  reference. \<open>lax_int\<close> is pydantic's
  lax conversion to int (see \<open>model_validate\<close>). The \<^verbatim>\<open>print\<close> of \<^verbatim>\<open>auto_pay_request\<close> is
  left out.
\<close>

record http_request =
  req_method :: string
  req_url :: string
  req_headers :: "(string \<rightharpoonup> string) option"
  req_other :: "(string \<times> pyval) list"

record http_response =
  status_code :: int
  json_body :: "pyval option"
  content :: string

record kwargs =
  kw_headers :: "nat option"
  kw_other :: "(string \<times> pyval) list"

record world =
  transport :: "http_request list \<Rightarrow> http_request \<Rightarrow> error + http_response"
  sent :: "http_request list"
  time_tape :: "nat \<Rightarrow> int"
  time_reads :: nat
  entropy :: "nat \<Rightarrow> byte"
  entropy_used :: nat
  signed :: "(eip712_domain \<times> transfer_message) list"
  heap :: "nat \<Rightarrow> (string \<rightharpoonup> string) option"
  heap_next :: nat
  lax_int :: "pyval \<Rightarrow> int option"

text \<open>\<^verbatim>\<open>int(time.time())\<close>: one reading of the clock.\<close>

definition time_time :: "world \<Rightarrow> int \<times> world" where
  "time_time w = (time_tape w (time_reads w), w\<lparr>time_reads := Suc (time_reads w)\<rparr>)"

text \<open>\<^verbatim>\<open>secrets.token_hex(n)\<close>: \<open>n\<close> fresh bytes, two lower-case hex digits each.\<close>

definition token_bytes :: "nat \<Rightarrow> world \<Rightarrow> byte list \<times> world" where
  "token_bytes n w =
     (map (\<lambda>i. entropy w (entropy_used w + i)) [0..<n], w\<lparr>entropy_used := entropy_used w + n\<rparr>)"

definition hex_byte :: "byte \<Rightarrow> string" where
  "hex_byte b = [digit_char (unat b div 16), digit_char (unat b mod 16)]"

definition token_hex :: "nat \<Rightarrow> world \<Rightarrow> string \<times> world" where
  "token_hex n w = (case token_bytes n w of (bs, w') \<Rightarrow> (concat (map hex_byte bs), w'))"

text \<open>\<^verbatim>\<open>self.session.request(method, url, **kwargs)\<close>: the headers are read as they are now.\<close>

definition session_request ::
  "string \<Rightarrow> string \<Rightarrow> kwargs \<Rightarrow> world \<Rightarrow> (error + http_response) \<times> world" where
  "session_request method url kw w =
     (let req = \<lparr>req_method = method, req_url = url,
                 req_headers = (case kw_headers kw of None \<Rightarrow> None | Some r \<Rightarrow> heap w r),
                 req_other = kw_other kw\<rparr>
      in (transport w (sent w) req, w\<lparr>sent := sent w @ [req]\<rparr>))"

text \<open>\<^verbatim>\<open>SimpleX402Signer.create_exact_payment\<close>, statement by statement.\<close>

definition create_exact_payment ::
  "SimpleX402Signer \<Rightarrow> PaymentRequirement \<Rightarrow> string option \<Rightarrow> world
     \<Rightarrow> (error + PaymentPayload) \<times> world" where
  "create_exact_payment self requirement amount_arg w =
     (let amount = (case amount_arg of None \<Rightarrow> max_amount_required requirement | Some a \<Rightarrow> a);
          (hex32, w1) = token_hex 32 w;
          nonce = ''0x'' @ hex32;
          (now1, w2) = time_time w1;
          valid_after = now1 - max_timeout_seconds requirement;
          (now2, w3) = time_time w2;
          valid_before = now2 + max_timeout_seconds requirement;
          chain_id = get_chain_id (network requirement)
      in case get_token_name (py_str chain_id) (asset requirement) of
           Inl e \<Rightarrow> (Inl e, w3)
         | Inr tok_name \<Rightarrow>
        (case get_token_version (py_str chain_id) (asset requirement) of
           Inl e \<Rightarrow> (Inl e, w3)
         | Inr tok_version \<Rightarrow>
        (let domain = \<lparr>domain_name = tok_name, domain_version = tok_version,
                       domain_chainId = chain_id,
                       domain_verifyingContract = asset requirement\<rparr>;
             message = \<lparr>msg_from = address (account self), msg_to = pay_to requirement,
                        msg_value = amount, msg_validAfter = valid_after,
                        msg_validBefore = valid_before, msg_nonce = nonce\<rparr>;
             w4 = w3\<lparr>signed := signed w3 @ [(domain, message)]\<rparr>
         in case sign_typed_data (account self) domain message_types message of
              Inl e \<Rightarrow> (Inl e, w4)
            | Inr sg \<Rightarrow>
                (Inr \<lparr>x402_version = 1,
                      payload_scheme = scheme requirement,
                      payload_network = network requirement,
                      payload =
                        [(''from'', PyStr (address (account self))),
                         (''to'', PyStr (pay_to requirement)),
                         (''value'', PyStr amount),
                         (''validAfter'', PyStr (py_str valid_after)),
                         (''validBefore'', PyStr (py_str valid_before)),
                         (''nonce'', PyStr nonce),
                         (''signature'',
                          PyDict [(''r'', PyStr (py_hex (sig_r sg))),
                                  (''s'', PyStr (py_hex (sig_s sg))),
                                  (''v'', PyInt (sig_v sg))])]\<rparr>,
                 w4))))"

section \<open>The client (x402/client/base.py)\<close>

record X402Client =
  signer :: SimpleX402Signer

text \<open>
  The \<^verbatim>\<open>try\<close> block of \<^verbatim>\<open>request\<close> up to its \<^verbatim>\<open>raise\<close>: the parsed body with the validated
  requirements, or the first exception.
\<close>

definition parse_requirements ::
  "(pyval \<Rightarrow> int option) \<Rightarrow> http_response \<Rightarrow> error + (pyval \<times> PaymentRequirement list)" where
  "parse_requirements lax response =
     (case json_body response of
        None \<Rightarrow> Inl JSONDecodeError
      | Some data \<Rightarrow>
     (case py_getitem data ''accepts'' of
        Inl e \<Rightarrow> Inl e
      | Inr acc \<Rightarrow>
     (case py_iter acc of
        Inl e \<Rightarrow> Inl e
      | Inr items \<Rightarrow>
     (case sequence_err (map (model_validate lax) items) of
        Inl e \<Rightarrow> Inl e
      | Inr requirements \<Rightarrow> Inr (data, requirements)))))"

definition request ::
  "X402Client \<Rightarrow> string \<Rightarrow> string \<Rightarrow> kwargs \<Rightarrow> world \<Rightarrow> (error + http_response) \<times> world" where
  "request self method url kw w =
     (case session_request method url kw w of
        (Inl e, w1) \<Rightarrow> (Inl e, w1)
      | (Inr response, w1) \<Rightarrow>
          if status_code response = 402 then
            (case parse_requirements (lax_int w1) response of
               Inr (data, requirements) \<Rightarrow>
                 (Inl (X402PaymentRequiredError (Payment_required data) requirements), w1)
             | Inl e \<Rightarrow>
                 if is_ValueError_or_KeyError e
                 then (Inl (X402PaymentRequiredError (Invalid_402_response e) []), w1)
                 else (Inl e, w1))
          else (Inr response, w1))"

text \<open>
  \<^verbatim>\<open>pay_and_request\<close>. \<^verbatim>\<open>kwargs.get('headers', {})\<close> is the caller's dict when there is one
  and a new dict otherwise; in \<^verbatim>\<open>headers['X-PAYMENT'] = payment.to_header()\<close> the right-hand
  side is evaluated first, the store into the dict second.
\<close>

definition pay_and_request ::
  "X402Client \<Rightarrow> string \<Rightarrow> string \<Rightarrow> PaymentRequirement \<Rightarrow> string option \<Rightarrow> kwargs \<Rightarrow> world
     \<Rightarrow> (error + http_response) \<times> world" where
  "pay_and_request self method url requirement amount kw w =
     (case create_exact_payment (signer self) requirement amount w of
        (Inl e, w1) \<Rightarrow> (Inl e, w1)
      | (Inr payment, w1) \<Rightarrow>
          (let (headers, w2) =
                 (case kw_headers kw of
                    Some r \<Rightarrow> (r, w1)
                  | None \<Rightarrow>
                      (let r = heap_next w1
                       in (r, w1\<lparr>heap := (heap w1)(r := Some Map.empty),
                                  heap_next := Suc r\<rparr>)))
           in case to_header payment of
                Inl e \<Rightarrow> (Inl e, w2)
              | Inr h \<Rightarrow>
                  (case heap w2 headers of
                     None \<Rightarrow> (Inl (TypeError ''object does not support item assignment''), w2)
                   | Some d \<Rightarrow>
                       session_request method url (kw\<lparr>kw_headers := Some headers\<rparr>)
                         (w2\<lparr>heap := (heap w2)(headers := Some (d(''X-PAYMENT'' \<mapsto> h)))\<rparr>))))"

definition auto_pay_request ::
  "X402Client \<Rightarrow> string \<Rightarrow> string \<Rightarrow> kwargs \<Rightarrow> world \<Rightarrow> (error + http_response) \<times> world" where
  "auto_pay_request self method url kw w =
     (case request self method url kw w of
        (Inr response, w1) \<Rightarrow> (Inr response, w1)
      | (Inl (X402PaymentRequiredError msg requirements), w1) \<Rightarrow>
          (case requirements of
             [] \<Rightarrow> (Inl NoPaymentOptions, w1)
           | requirement # rest \<Rightarrow> pay_and_request self method url requirement None kw w1)
      | (Inl e, w1) \<Rightarrow> (Inl e, w1))"

section \<open>Scenarios\<close>

text \<open>
  Concrete collaborators for running the client: an account with a fixed address whose
  signing primitive returns a fixed signature, and a server that answers 402 with a
  given body to a request without an \<^verbatim>\<open>X-PAYMENT\<close> header and 200 to a request with one.
\<close>

definition test_account :: account where
  "test_account =
     \<lparr>address = ''0x1111111111111111111111111111111111111111'',
      sign_typed_data = (\<lambda>d t m. Inr \<lparr>sig_r = 255, sig_s = 4096, sig_v = 27\<rparr>)\<rparr>"

definition test_client :: X402Client where
  "test_client = \<lparr>signer = \<lparr>account = test_account\<rparr>\<rparr>"

definition paid_response :: http_response where
  "paid_response = \<lparr>status_code = 200, json_body = Some (PyDict [(''ok'', PyBool True)]),
                     content = ''premium content''\<rparr>"

definition paywall :: "pyval option \<Rightarrow> http_request list \<Rightarrow> http_request \<Rightarrow> error + http_response" where
  "paywall body log req =
     (case req_headers req of
        None \<Rightarrow> Inr \<lparr>status_code = 402, json_body = body, content = ''payment required''\<rparr>
      | Some h \<Rightarrow>
          (case h ''X-PAYMENT'' of
             None \<Rightarrow> Inr \<lparr>status_code = 402, json_body = body, content = ''payment required''\<rparr>
           | Some p \<Rightarrow> Inr paid_response))"

definition fixed_clock :: "nat \<Rightarrow> int" where
  "fixed_clock i = 1700000000"

definition ticking_clock :: "nat \<Rightarrow> int" where
  "ticking_clock i = 1000 + int i"

definition counting_entropy :: "nat \<Rightarrow> byte" where
  "counting_entropy i = of_nat i"

definition no_lax :: "pyval \<Rightarrow> int option" where
  "no_lax v = None"

definition caller_headers :: "nat \<Rightarrow> (string \<rightharpoonup> string) option" where
  "caller_headers r = (if r = 0 then Some [''Accept'' \<mapsto> ''application/json''] else None)"

definition paywall_world :: "pyval option \<Rightarrow> (nat \<Rightarrow> int) \<Rightarrow> world" where
  "paywall_world body clock =
     \<lparr>transport = paywall body, sent = [], time_tape = clock, time_reads = 0,
      entropy = counting_entropy, entropy_used = 0, signed = [],
      heap = caller_headers, heap_next = 1, lax_int = no_lax\<rparr>"

definition no_kwargs :: kwargs where
  "no_kwargs = \<lparr>kw_headers = None, kw_other = []\<rparr>"

definition headers_kwargs :: kwargs where
  "headers_kwargs = \<lparr>kw_headers = Some 0, kw_other = []\<rparr>"

text \<open>The requirement of the end-to-end scenario, on the wire and parsed.\<close>

definition premium_json :: "string \<Rightarrow> string \<Rightarrow> int \<Rightarrow> pyval" where
  "premium_json net token timeout =
     PyDict [(''scheme'', PyStr ''exact''), (''network'', PyStr net),
             (''maxAmountRequired'', PyStr ''10000''), (''resource'', PyStr ''/premium''),
             (''description'', PyStr ''d''), (''mimeType'', PyStr ''application/json''),
             (''payTo'', PyStr ''0xAbc...''), (''maxTimeoutSeconds'', PyInt timeout),
             (''asset'', PyStr token)]"

definition premium_requirement :: "PaymentNetwork \<Rightarrow> string \<Rightarrow> int \<Rightarrow> PaymentRequirement" where
  "premium_requirement net token timeout =
     \<lparr>scheme = EXACT, network = net, max_amount_required = ''10000'', resource = ''/premium'',
      description = ''d'', mime_type = ''application/json'', pay_to = ''0xAbc...'',
      max_timeout_seconds = timeout, asset = token, output_schema = None, extra = None\<rparr>"

definition sepolia_usdc :: string where
  "sepolia_usdc = ''0x036CbD53842c5426634e7929541eC2318f3dCF7e''"

definition mainnet_usdc :: string where
  "mainnet_usdc = ''0x833589fCD6eDb6E08f4c7C32D4f71b54bdA02913''"

definition body_402 :: "pyval list \<Rightarrow> pyval" where
  "body_402 reqs = PyDict [(''x402Version'', PyInt 1), (''accepts'', PyList reqs)]"

definition e2e_world :: world where
  "e2e_world =
     paywall_world (Some (body_402 [premium_json ''base-sepolia'' sepolia_usdc 300]))
       fixed_clock"

definition mainnet_world :: world where
  "mainnet_world =
     paywall_world (Some (body_402 [premium_json ''base-mainnet'' mainnet_usdc 300]))
       fixed_clock"

text \<open>Two successive payments for the same requirement, and two with other clocks.\<close>

definition mainnet_requirement :: PaymentRequirement where
  "mainnet_requirement = premium_requirement BASE_MAINNET mainnet_usdc 300"

definition first_payment :: "(error + PaymentPayload) \<times> world" where
  "first_payment = create_exact_payment (signer test_client) mainnet_requirement None mainnet_world"

definition second_payment :: "(error + PaymentPayload) \<times> world" where
  "second_payment =
     create_exact_payment (signer test_client) mainnet_requirement None (snd first_payment)"

definition override_payment :: "(error + PaymentPayload) \<times> world" where
  "override_payment =
     create_exact_payment (signer test_client) mainnet_requirement (Some ''2500'') mainnet_world"

definition ticking_payment :: "(error + PaymentPayload) \<times> world" where
  "ticking_payment =
     create_exact_payment (signer test_client) mainnet_requirement None
       (paywall_world None ticking_clock)"

definition negative_timeout_payment :: "(error + PaymentPayload) \<times> world" where
  "negative_timeout_payment =
     create_exact_payment (signer test_client) (premium_requirement BASE_MAINNET mainnet_usdc (- 5))
       None (paywall_world None ticking_clock)"

definition no_version_body :: pyval where
  "no_version_body = PyDict [(''accepts'', PyList [premium_json ''base-mainnet'' mainnet_usdc 300])]"

text \<open>Servers whose 402 body is not a well-formed \<^verbatim>\<open>PaymentRequiredResponse\<close>, or offers nothing.\<close>

definition no_version_world :: world where
  "no_version_world = paywall_world (Some no_version_body) fixed_clock"

definition list_body_world :: world where
  "list_body_world = paywall_world (Some (PyList [])) fixed_clock"

definition non_json_world :: world where
  "non_json_world = paywall_world None fixed_clock"

definition unknown_network_world :: world where
  "unknown_network_world =
     paywall_world (Some (body_402 [premium_json ''solana'' mainnet_usdc 300])) fixed_clock"

definition no_accepts_world :: world where
  "no_accepts_world = paywall_world (Some (PyDict [(''x402Version'', PyInt 1)])) fixed_clock"

definition empty_accepts_world :: world where
  "empty_accepts_world = paywall_world (Some (body_402 [])) fixed_clock"

definition response_402 :: "pyval option \<Rightarrow> http_response" where
  "response_402 body = \<lparr>status_code = 402, json_body = body, content = ''payment required''\<rparr>"

section \<open>Observations\<close>

text \<open>
  The message of the latest call to the signing primitive; the validity window of a
  call that returned a payload, as the integers signed; and the lower-case hex digits.
\<close>

definition last_signed_message :: "world \<Rightarrow> transfer_message" where
  "last_signed_message w = snd (last (signed w))"

definition validity_window :: "(error + PaymentPayload) \<times> world \<Rightarrow> (int \<times> int) option" where
  "validity_window r =
     (case fst r of
        Inl e \<Rightarrow> None
      | Inr p \<Rightarrow> Some (msg_validAfter (last_signed_message (snd r)),
                       msg_validBefore (last_signed_message (snd r))))"

definition is_hex_digit :: "char \<Rightarrow> bool" where
  "is_hex_digit c = (c \<in> set ''0123456789abcdef'')"

section \<open>Auxiliary facts\<close>

subsection \<open>Evaluation\<close>

lemma upt32: "[0..<32] = [0,1,2,3,4,5,6,7,8,9,10,11,12,13,14,15,16,17,18,19,20,21,22,23,24,25,26,27,28,29,30,31]"
  by code_simp

lemmas scenario_defs =
  test_client_def test_account_def paid_response_def paywall_def paywall_world_def
  fixed_clock_def ticking_clock_def counting_entropy_def no_lax_def caller_headers_def
  no_kwargs_def headers_kwargs_def premium_json_def premium_requirement_def
  sepolia_usdc_def mainnet_usdc_def body_402_def e2e_world_def mainnet_world_def
  no_version_body_def mainnet_requirement_def
  no_version_world_def list_body_world_def non_json_world_def unknown_network_world_def
  empty_accepts_world_def no_accepts_world_def response_402_def

lemmas signer_defs =
  create_exact_payment_def token_hex_def token_bytes_def hex_byte_def digit_char_def
  time_time_def get_chain_id_def chain_ids_def get_token_name_def get_token_version_def
  KNOWN_TOKENS_def TokenNotFound_def py_str_def py_hex_def digits.simps Let_def upt32

lemmas client_defs =
  auto_pay_request_def pay_and_request_def request_def session_request_def
  parse_requirements_def model_validate_def required_str_def required_int_def
  required_scheme_def required_network_def optional_dict_def optional_str_def
  PaymentScheme_of_value_def PaymentNetwork_of_value_def to_header_def
  PaymentRequired_def MalformedRequirementsResponse_def NoPaymentOptions_def

lemma returns_collapse: "\<not> isl (fst r) \<Longrightarrow> r = (Inr (projr (fst r)), snd r)"
  by (cases r; cases "fst r") simp_all

lemma first_payment_returns: "\<not> isl (fst first_payment)"
  by (simp add: first_payment_def scenario_defs signer_defs)

lemma first_payment_world:
  "entropy_used (snd first_payment) = 32" "entropy (snd first_payment) = counting_entropy"
  by (simp_all add: first_payment_def scenario_defs signer_defs)

lemma second_payment_returns: "\<not> isl (fst second_payment)"
  by (simp add: second_payment_def signer_defs mainnet_requirement_def premium_requirement_def
        mainnet_usdc_def test_client_def test_account_def split: prod.splits)

lemma override_payment_returns: "\<not> isl (fst override_payment)"
  by (simp add: override_payment_def scenario_defs signer_defs)

subsection \<open>What a returned payment holds\<close>

lemma create_exact_payment_Inr:
  assumes "create_exact_payment self requirement amount w = (Inr p, w')"
  shows "payload p =
           [(''from'', PyStr (address (account self))),
            (''to'', PyStr (pay_to requirement)),
            (''value'', PyStr (case amount of None \<Rightarrow> max_amount_required requirement | Some a \<Rightarrow> a)),
            (''validAfter'', PyStr (py_str (time_tape w (time_reads w) - max_timeout_seconds requirement))),
            (''validBefore'', PyStr (py_str (time_tape w (Suc (time_reads w)) + max_timeout_seconds requirement))),
            (''nonce'', PyStr (''0x'' @ fst (token_hex 32 w))),
            (''signature'', the (map_of (payload p) ''signature''))]"
    and "last_signed_message w' =
           \<lparr>msg_from = address (account self), msg_to = pay_to requirement,
            msg_value = (case amount of None \<Rightarrow> max_amount_required requirement | Some a \<Rightarrow> a),
            msg_validAfter = time_tape w (time_reads w) - max_timeout_seconds requirement,
            msg_validBefore = time_tape w (Suc (time_reads w)) + max_timeout_seconds requirement,
            msg_nonce = ''0x'' @ fst (token_hex 32 w)\<rparr>"
  using assms
  by (auto simp: create_exact_payment_def Let_def token_hex_def token_bytes_def time_time_def
        last_signed_message_def split: sum.splits prod.splits)

subsection \<open>Hex encoding\<close>

lemma digit_char_inj: "a < 16 \<Longrightarrow> b < 16 \<Longrightarrow> digit_char a = digit_char b \<Longrightarrow> a = b"
proof -
  assume a: "a < 16" and b: "b < 16" and e: "digit_char a = digit_char b"
  have d: "distinct ''0123456789abcdef''" by simp
  have "''0123456789abcdef'' ! a = ''0123456789abcdef'' ! b"
    using e a b by (simp add: digit_char_def)
  with d a b show "a = b" by (simp add: nth_eq_iff_index_eq)
qed

lemma hex_byte_inj: "hex_byte a = hex_byte b \<Longrightarrow> a = b"
proof -
  assume e: "hex_byte a = hex_byte b"
  have la: "unat a < 256" and lb: "unat b < 256"
    using unsigned_less [of a, where ?'a = nat] unsigned_less [of b, where ?'a = nat] by simp_all
  from e have h: "digit_char (unat a div 16) = digit_char (unat b div 16)"
    and l: "digit_char (unat a mod 16) = digit_char (unat b mod 16)"
    by (simp_all add: hex_byte_def)
  have "unat a div 16 = unat b div 16"
    using h la lb by (intro digit_char_inj) auto
  moreover have "unat a mod 16 = unat b mod 16"
    using l by (intro digit_char_inj) auto
  ultimately have "unat a = unat b"
    by (metis div_mult_mod_eq)
  then show "a = b" by (simp add: word_unat_eq_iff)
qed

lemma hex_bytes_inj:
  "length bs = length cs \<Longrightarrow> concat (map hex_byte bs) = concat (map hex_byte cs) \<Longrightarrow> bs = cs"
proof (induction bs cs rule: list_induct2)
  case Nil
  then show ?case by simp
next
  case (Cons b bs c cs)
  have "length (hex_byte b) = length (hex_byte c)"
    by (simp add: hex_byte_def)
  with Cons.prems have "hex_byte b = hex_byte c \<and> concat (map hex_byte bs) = concat (map hex_byte cs)"
    by simp
  with Cons.IH show ?case by (auto dest: hex_byte_inj)
qed

lemma is_hex_digit_char: "is_hex_digit (digit_char n)"
proof -
  have "n mod 16 < length ''0123456789abcdef''" by simp
  then have "''0123456789abcdef'' ! (n mod 16) \<in> set ''0123456789abcdef''"
    by (rule nth_mem)
  then show ?thesis by (simp only: is_hex_digit_def digit_char_def)
qed

lemma hex_bytes_digits: "list_all is_hex_digit (concat (map hex_byte bs))"
  by (induction bs) (simp_all add: hex_byte_def is_hex_digit_char)

lemma hex_bytes_length: "length (concat (map hex_byte bs)) = 2 * length bs"
  by (induction bs) (simp_all add: hex_byte_def)

lemma token_hex_bytes: "fst (token_hex n w) = concat (map hex_byte (fst (token_bytes n w)))"
  by (simp add: token_hex_def split: prod.splits)

lemma token_bytes_length: "length (fst (token_bytes n w)) = n"
  by (simp add: token_bytes_def)

lemma token_hex_32:
  "length (fst (token_hex 32 w)) = 64" "list_all is_hex_digit (fst (token_hex 32 w))"
  by (simp_all only: token_hex_bytes hex_bytes_length hex_bytes_digits token_bytes_length)

lemma token_hex_inj:
  "fst (token_bytes n w) \<noteq> fst (token_bytes n v) \<Longrightarrow> fst (token_hex n w) \<noteq> fst (token_hex n v)"
  using hex_bytes_inj [of "fst (token_bytes n w)" "fst (token_bytes n v)"]
  by (auto simp only: token_hex_bytes token_bytes_length)

subsection \<open>Parsing a 402 body\<close>

lemma sequence_err_all_Inr:
  "list_all (\<lambda>x. \<not> isl (f x)) xs \<Longrightarrow> sequence_err (map f xs) = Inr (map (\<lambda>x. projr (f x)) xs)"
proof (induction xs)
  case Nil
  then show ?case by simp
next
  case (Cons x xs)
  then obtain r where "f x = Inr r" by (cases "f x") auto
  with Cons show ?case by simp
qed

lemma model_validate_error: "model_validate lax x = Inl e \<Longrightarrow> e = ValidationError"
  by (auto simp: model_validate_def split: pyval.splits option.splits)

lemma sequence_err_model_validate:
  "\<not> list_all (\<lambda>x. \<not> isl (model_validate lax x)) xs \<Longrightarrow>
   sequence_err (map (model_validate lax) xs) = Inl ValidationError"
proof (induction xs)
  case Nil
  then show ?case by simp
next
  case (Cons x xs)
  show ?case
  proof (cases "model_validate lax x")
    case (Inl e)
    then show ?thesis using model_validate_error [OF Inl] by simp
  next
    case (Inr r)
    with Cons show ?thesis by simp
  qed
qed

lemma unknown_scheme_rejected:
  "map_of obj ''scheme'' = Some (PyStr s) \<Longrightarrow> s \<noteq> ''exact'' \<Longrightarrow>
   model_validate lax (PyDict obj) = Inl ValidationError"
  by (simp add: model_validate_def required_scheme_def PaymentScheme_of_value_def)

lemma PaymentNetwork_of_value_None:
  "s \<notin> {''base-sepolia'', ''base-mainnet'', ''ethereum-sepolia'', ''ethereum-mainnet''} \<Longrightarrow>
   PaymentNetwork_of_value s = None"
  by (auto simp: PaymentNetwork_of_value_def)

lemma unknown_network_rejected:
  "map_of obj ''network'' = Some (PyStr s) \<Longrightarrow>
   s \<notin> {''base-sepolia'', ''base-mainnet'', ''ethereum-sepolia'', ''ethereum-mainnet''} \<Longrightarrow>
   model_validate lax (PyDict obj) = Inl ValidationError"
  using PaymentNetwork_of_value_None [of s]
  by (simp add: model_validate_def required_network_def del: insert_iff)

lemma session_request_lax: "session_request method url kw w = (r, w1) \<Longrightarrow> lax_int w1 = lax_int w"
  by (auto simp: session_request_def Let_def)

lemma request_402:
  assumes "session_request method url kw w = (Inr response, w1)" and "status_code response = 402"
  shows "fst (request self method url kw w) =
           (case parse_requirements (lax_int w) response of
              Inr (data, requirements) \<Rightarrow> Inl (X402PaymentRequiredError (Payment_required data) requirements)
            | Inl e \<Rightarrow> if is_ValueError_or_KeyError e
                       then Inl (X402PaymentRequiredError (Invalid_402_response e) []) else Inl e)"
  using assms session_request_lax [OF assms(1)]
  by (simp add: request_def split: sum.splits prod.splits)


lemma request_malformed_json:
  assumes "session_request method url kw w = (Inr response, w1)" and "status_code response = 402"
    and "json_body response = None"
  shows "fst (request self method url kw w) = Inl (MalformedRequirementsResponse JSONDecodeError)"
  by (simp add: request_402 [OF assms(1,2)] assms(3) parse_requirements_def
        MalformedRequirementsResponse_def)

lemma request_missing_accepts:
  assumes "session_request method url kw w = (Inr response, w1)" and "status_code response = 402"
    and "json_body response = Some (PyDict kvs)" and "map_of kvs ''accepts'' = None"
  shows "fst (request self method url kw w) = Inl (MalformedRequirementsResponse (KeyError ''accepts''))"
  by (simp add: request_402 [OF assms(1,2)] assms(3,4) parse_requirements_def
        MalformedRequirementsResponse_def)

lemma request_invalid_requirement:
  assumes "session_request method url kw w = (Inr response, w1)" and "status_code response = 402"
    and "json_body response = Some (PyDict kvs)" and "map_of kvs ''accepts'' = Some (PyList xs)"
    and "\<not> list_all (\<lambda>x. \<not> isl (model_validate (lax_int w) x)) xs"
  shows "fst (request self method url kw w) = Inl (MalformedRequirementsResponse ValidationError)"
  by (simp add: request_402 [OF assms(1,2)] assms(3,4) parse_requirements_def
        MalformedRequirementsResponse_def sequence_err_model_validate [OF assms(5)])

lemma request_payment_required:
  assumes "session_request method url kw w = (Inr response, w1)" and "status_code response = 402"
    and "json_body response = Some (PyDict kvs)" and "map_of kvs ''accepts'' = Some (PyList xs)"
    and "list_all (\<lambda>x. \<not> isl (model_validate (lax_int w) x)) xs"
  shows "fst (request self method url kw w) =
         Inl (PaymentRequired (PyDict kvs) (map (\<lambda>x. projr (model_validate (lax_int w) x)) xs))"
  by (simp add: request_402 [OF assms(1,2)] assms(3,4) parse_requirements_def
        PaymentRequired_def sequence_err_all_Inr [OF assms(5)])

lemma request_frame:
  "signed (snd (request self method url kw w)) = signed w"
  "entropy_used (snd (request self method url kw w)) = entropy_used w"
  "time_reads (snd (request self method url kw w)) = time_reads w"
  "heap (snd (request self method url kw w)) = heap w"
  by (simp_all add: request_def session_request_def Let_def split: sum.splits prod.splits)

subsection \<open>What a payment attempt leaves alone\<close>

lemma create_exact_payment_frame:
  "heap (snd (create_exact_payment self requirement amount w)) = heap w"
  "sent (snd (create_exact_payment self requirement amount w)) = sent w"
  by (simp_all add: create_exact_payment_def Let_def token_hex_def token_bytes_def time_time_def
        split: sum.splits prod.splits)

lemma pay_and_request_sends_nothing:
  "sent (snd (pay_and_request self m url requirement amount kw w)) = sent w"
  using create_exact_payment_frame(2) [of "signer self" requirement amount w]
  by (cases "create_exact_payment (signer self) requirement amount w")
     (auto simp: pay_and_request_def to_header_def Let_def split: sum.splits option.splits)

lemma pay_and_request_keeps_heap:
  "heap (snd (pay_and_request self m url requirement amount (kw\<lparr>kw_headers := Some r\<rparr>) w)) = heap w"
  using create_exact_payment_frame(1) [of "signer self" requirement amount w]
  by (cases "create_exact_payment (signer self) requirement amount w")
     (auto simp: pay_and_request_def to_header_def Let_def split: sum.splits option.splits)

section \<open>The claims\<close>

text \<open>
  C1. End to end: the server answers \<^verbatim>\<open>GET /premium\<close> with 402 and the one requirement
  (exact, base-sepolia, 10000, USDC at 0x036C...dCF7e); \<open>auto_pay_request\<close> should select
  it, sign, attach the header, resend once and return the resent response. The code parses
  the requirement, but \<^verbatim>\<open>_get_chain_id\<close> maps base-sepolia to 8453, the registry lists the
  asset under 84532 only, and the call ends in \<open>TokenNotFound\<close> after the one request:
  nothing is signed and nothing is resent.
\<close>

theorem e2e_base_sepolia_token_not_found:
  "fst (request test_client ''GET'' ''/premium'' no_kwargs e2e_world)
     = Inl (PaymentRequired (body_402 [premium_json ''base-sepolia'' sepolia_usdc 300])
             [premium_requirement BASE_SEPOLIA sepolia_usdc 300])
   \<and> fst (auto_pay_request test_client ''GET'' ''/premium'' no_kwargs e2e_world)
       = Inl (TokenNotFound ''8453'' sepolia_usdc)
   \<and> length (sent (snd (auto_pay_request test_client ''GET'' ''/premium'' no_kwargs e2e_world))) = 1
   \<and> signed (snd (auto_pay_request test_client ''GET'' ''/premium'' no_kwargs e2e_world)) = []"
  by (simp add: scenario_defs client_defs signer_defs)

text \<open>
  C2. \<open>to_header\<close> should give the base64 of the compact JSON of the four wire keys, and
  decoding it should give the fields back. The dict handed to \<^verbatim>\<open>json.dumps\<close> holds the enum
  member under \<^verbatim>\<open>scheme\<close>, so for every payload the call raises \<^verbatim>\<open>TypeError\<close> and there is no
  header to decode.
\<close>

theorem to_header_raises_TypeError:
  "to_header p = Inl (TypeError ''Object of type PaymentScheme is not JSON serializable'')"
  by (simp add: to_header_def)

text \<open>
  C3, as amended. For a call of \<open>create_exact_payment\<close> that returns a payload: the signed
  message holds the integers \<open>validAfter\<close> and \<open>validBefore\<close> and the payload their decimal
  strings; when the two readings of the clock that the call takes show the same second,
  \<open>validBefore - validAfter = 2 * max_timeout_seconds\<close>; when \<open>max_timeout_seconds\<close> is not
  negative and the second reading is not before the first, both readings lie in
  \<open>[validAfter, validBefore]\<close>.
\<close>

theorem validity_window_same_second:
  assumes "create_exact_payment self requirement amount w = (Inr p, w')"
  shows "\<exists>va vb.
           validity_window (Inr p, w') = Some (va, vb)
         \<and> map_of (payload p) ''validAfter'' = Some (PyStr (py_str va))
         \<and> map_of (payload p) ''validBefore'' = Some (PyStr (py_str vb))
         \<and> (time_tape w (Suc (time_reads w)) = time_tape w (time_reads w) \<longrightarrow>
              vb - va = 2 * max_timeout_seconds requirement)
         \<and> (0 \<le> max_timeout_seconds requirement
              \<and> time_tape w (time_reads w) \<le> time_tape w (Suc (time_reads w)) \<longrightarrow>
              va \<le> time_tape w (time_reads w) \<and> time_tape w (time_reads w) \<le> vb
            \<and> va \<le> time_tape w (Suc (time_reads w)) \<and> time_tape w (Suc (time_reads w)) \<le> vb)"
proof -
  let ?va = "time_tape w (time_reads w) - max_timeout_seconds requirement"
  let ?vb = "time_tape w (Suc (time_reads w)) + max_timeout_seconds requirement"
  have win: "validity_window (Inr p, w') = Some (?va, ?vb)"
    by (simp add: validity_window_def create_exact_payment_Inr(2) [OF assms])
  have a: "map_of (payload p) ''validAfter'' = Some (PyStr (py_str ?va))"
    by (subst create_exact_payment_Inr(1) [OF assms]) simp
  have b: "map_of (payload p) ''validBefore'' = Some (PyStr (py_str ?vb))"
    by (subst create_exact_payment_Inr(1) [OF assms]) simp
  have "time_tape w (Suc (time_reads w)) = time_tape w (time_reads w) \<longrightarrow>
              ?vb - ?va = 2 * max_timeout_seconds requirement"
    by simp
  moreover have "0 \<le> max_timeout_seconds requirement
              \<and> time_tape w (time_reads w) \<le> time_tape w (Suc (time_reads w)) \<longrightarrow>
              ?va \<le> time_tape w (time_reads w) \<and> time_tape w (time_reads w) \<le> ?vb
            \<and> ?va \<le> time_tape w (Suc (time_reads w)) \<and> time_tape w (Suc (time_reads w)) \<le> ?vb"
    by simp
  ultimately show ?thesis using win a b by blast
qed

text \<open>C3, witness: the first payment of the scenario, on a clock that stands still.\<close>

theorem validity_window_same_second_witness:
  "\<not> isl (fst first_payment)
   \<and> (\<exists>va vb. validity_window first_payment = Some (va, vb)
         \<and> vb - va = 2 * 300 \<and> va \<le> 1700000000 \<and> 1700000000 \<le> vb)"
proof -
  have h: "create_exact_payment (signer test_client) mainnet_requirement None mainnet_world
             = (Inr (projr (fst first_payment)), snd first_payment)"
    using returns_collapse [OF first_payment_returns] by (simp add: first_payment_def)
  have w: "(Inr (projr (fst first_payment)), snd first_payment) = first_payment"
    using returns_collapse [OF first_payment_returns] by simp
  from validity_window_same_second [OF h] show ?thesis
    unfolding w
    by (auto simp: first_payment_returns mainnet_requirement_def premium_requirement_def
          mainnet_world_def paywall_world_def fixed_clock_def)
qed

text \<open>
  C3 as stated fails: with readings 1000 and 1001 and a timeout of 300 the window is
  \<open>[700, 1301]\<close>, of width 601; with a timeout of -5, which the model class accepts, the
  window \<open>[1005, 996]\<close> does not hold the reading 1000.
\<close>

theorem validity_window_counterexample:
  "validity_window ticking_payment = Some (700, 1301)
   \<and> (1301 :: int) - 700 \<noteq> 2 * max_timeout_seconds mainnet_requirement
   \<and> validity_window negative_timeout_payment = Some (1005, 996)
   \<and> \<not> (1005 \<le> ticking_clock 0 \<and> ticking_clock 0 \<le> 996)"
  by (simp add: ticking_payment_def negative_timeout_payment_def scenario_defs signer_defs
        validity_window_def last_signed_message_def)

text \<open>
  C4. A requirement whose chain id is not a key of the registry should end in
  \<open>TokenNotFound\<close>. \<^verbatim>\<open>KNOWN_TOKENS[chain_id]\<close> raises \<^verbatim>\<open>KeyError\<close> first: on both Ethereum
  networks (chain ids 1 and 11155111) every call ends in \<open>KeyError\<close>, whatever the asset.
  An asset that is not listed under a chain the registry holds does end in
  \<open>TokenNotFound\<close>.
\<close>

theorem unknown_chain_raises_KeyError:
  "fst (create_exact_payment self (requirement\<lparr>network := ETHEREUM_MAINNET\<rparr>) amount w)
     = Inl (KeyError ''1'')
   \<and> fst (create_exact_payment self (requirement\<lparr>network := ETHEREUM_SEPOLIA\<rparr>) amount w)
       = Inl (KeyError ''11155111'')
   \<and> KeyError ''1'' \<noteq> TokenNotFound ''1'' (asset requirement)
   \<and> fst (create_exact_payment self
             (requirement\<lparr>network := BASE_MAINNET, asset := sepolia_usdc\<rparr>) amount w)
       = Inl (TokenNotFound ''8453'' sepolia_usdc)"
  by (simp add: signer_defs sepolia_usdc_def split: prod.splits)

text \<open>
  C5, as amended. On a 402 response: a body that is not JSON, a JSON object without
  \<^verbatim>\<open>accepts\<close>, or a JSON object whose \<^verbatim>\<open>accepts\<close> is a list with an element that fails
  validation, gives \<open>MalformedRequirementsResponse\<close> with the error and no requirement; a
  JSON object whose \<^verbatim>\<open>accepts\<close> is a list of elements that all validate gives
  \<open>PaymentRequired\<close> with one parsed requirement per element, in order, whether or not
  \<^verbatim>\<open>x402Version\<close> is there; and an element whose scheme or network is a string outside the
  enumeration fails validation.
\<close>

theorem request_402_signals:
  assumes "session_request method url kw w = (Inr response, w1)" and "status_code response = 402"
  shows
   "(json_body response = None \<longrightarrow>
       fst (request self method url kw w) = Inl (MalformedRequirementsResponse JSONDecodeError))
  \<and> (json_body response = Some (PyDict kvs) \<and> map_of kvs ''accepts'' = None \<longrightarrow>
       fst (request self method url kw w) = Inl (MalformedRequirementsResponse (KeyError ''accepts'')))
  \<and> (json_body response = Some (PyDict kvs) \<and> map_of kvs ''accepts'' = Some (PyList xs)
       \<and> \<not> list_all (\<lambda>x. \<not> isl (model_validate (lax_int w) x)) xs \<longrightarrow>
       fst (request self method url kw w) = Inl (MalformedRequirementsResponse ValidationError))
  \<and> (json_body response = Some (PyDict kvs) \<and> map_of kvs ''accepts'' = Some (PyList xs)
       \<and> list_all (\<lambda>x. \<not> isl (model_validate (lax_int w) x)) xs \<longrightarrow>
       fst (request self method url kw w) =
         Inl (PaymentRequired (PyDict kvs) (map (\<lambda>x. projr (model_validate (lax_int w) x)) xs)))
  \<and> (map_of obj ''scheme'' = Some (PyStr s) \<and> s \<noteq> ''exact'' \<longrightarrow>
       model_validate (lax_int w) (PyDict obj) = Inl ValidationError)
  \<and> (map_of obj ''network'' = Some (PyStr s)
       \<and> s \<notin> {''base-sepolia'', ''base-mainnet'', ''ethereum-sepolia'', ''ethereum-mainnet''} \<longrightarrow>
       model_validate (lax_int w) (PyDict obj) = Inl ValidationError)"
proof (intro conjI impI)
  assume "json_body response = None"
  then show "fst (request self method url kw w) = Inl (MalformedRequirementsResponse JSONDecodeError)"
    by (rule request_malformed_json [OF assms])
next
  assume "json_body response = Some (PyDict kvs) \<and> map_of kvs ''accepts'' = None"
  then show "fst (request self method url kw w) = Inl (MalformedRequirementsResponse (KeyError ''accepts''))"
    by (elim conjE) (rule request_missing_accepts [OF assms])
next
  assume "json_body response = Some (PyDict kvs) \<and> map_of kvs ''accepts'' = Some (PyList xs)
       \<and> \<not> list_all (\<lambda>x. \<not> isl (model_validate (lax_int w) x)) xs"
  then show "fst (request self method url kw w) = Inl (MalformedRequirementsResponse ValidationError)"
    by (elim conjE) (rule request_invalid_requirement [OF assms])
next
  assume "json_body response = Some (PyDict kvs) \<and> map_of kvs ''accepts'' = Some (PyList xs)
       \<and> list_all (\<lambda>x. \<not> isl (model_validate (lax_int w) x)) xs"
  then show "fst (request self method url kw w) =
         Inl (PaymentRequired (PyDict kvs) (map (\<lambda>x. projr (model_validate (lax_int w) x)) xs))"
    by (elim conjE) (rule request_payment_required [OF assms])
next
  assume "map_of obj ''scheme'' = Some (PyStr s) \<and> s \<noteq> ''exact''"
  then show "model_validate (lax_int w) (PyDict obj) = Inl ValidationError"
    by (elim conjE) (rule unknown_scheme_rejected)
next
  assume "map_of obj ''network'' = Some (PyStr s)
       \<and> s \<notin> {''base-sepolia'', ''base-mainnet'', ''ethereum-sepolia'', ''ethereum-mainnet''}"
  then show "model_validate (lax_int w) (PyDict obj) = Inl ValidationError"
    by (elim conjE) (rule unknown_network_rejected)
qed

text \<open>
  C5, witness: a well-formed body, a body whose requirement names the network
  \<^verbatim>\<open>solana\<close>, a body that is not JSON, a body without \<^verbatim>\<open>accepts\<close>, and an object with
  the scheme \<^verbatim>\<open>upto\<close>.
\<close>

theorem request_402_signals_witness:
  "fst (request test_client ''GET'' ''/premium'' no_kwargs mainnet_world)
     = Inl (PaymentRequired (body_402 [premium_json ''base-mainnet'' mainnet_usdc 300])
             [mainnet_requirement])
   \<and> fst (request test_client ''GET'' ''/premium'' no_kwargs unknown_network_world)
       = Inl (MalformedRequirementsResponse ValidationError)
   \<and> fst (request test_client ''GET'' ''/premium'' no_kwargs non_json_world)
       = Inl (MalformedRequirementsResponse JSONDecodeError)
   \<and> fst (request test_client ''GET'' ''/premium'' no_kwargs no_accepts_world)
       = Inl (MalformedRequirementsResponse (KeyError ''accepts''))
   \<and> model_validate no_lax (premium_json ''solana'' mainnet_usdc 300) = Inl ValidationError
   \<and> model_validate no_lax (PyDict [(''scheme'', PyStr ''upto'')]) = Inl ValidationError"
proof -
  have s1: "session_request ''GET'' ''/premium'' no_kwargs mainnet_world
      = (Inr (response_402 (Some (body_402 [premium_json ''base-mainnet'' mainnet_usdc 300]))),
         snd (session_request ''GET'' ''/premium'' no_kwargs mainnet_world))"
    by (simp add: session_request_def scenario_defs)
  have s2: "session_request ''GET'' ''/premium'' no_kwargs unknown_network_world
      = (Inr (response_402 (Some (body_402 [premium_json ''solana'' mainnet_usdc 300]))),
         snd (session_request ''GET'' ''/premium'' no_kwargs unknown_network_world))"
    by (simp add: session_request_def scenario_defs)
  have s3: "session_request ''GET'' ''/premium'' no_kwargs non_json_world
      = (Inr (response_402 None), snd (session_request ''GET'' ''/premium'' no_kwargs non_json_world))"
    by (simp add: session_request_def scenario_defs)
  have s4: "session_request ''GET'' ''/premium'' no_kwargs no_accepts_world
      = (Inr (response_402 (Some (PyDict [(''x402Version'', PyInt 1)]))),
         snd (session_request ''GET'' ''/premium'' no_kwargs no_accepts_world))"
    by (simp add: session_request_def scenario_defs)
  have st: "status_code (response_402 b) = 402" for b
    by (simp add: response_402_def)
  have v: "model_validate no_lax (premium_json ''base-mainnet'' mainnet_usdc 300) = Inr mainnet_requirement"
    by (simp add: scenario_defs client_defs)
  note a = request_402_signals [OF s1 st, where self = test_client
        and kvs = "[(''x402Version'', PyInt 1),
                   (''accepts'', PyList [premium_json ''base-mainnet'' mainnet_usdc 300])]"
        and xs = "[premium_json ''base-mainnet'' mainnet_usdc 300]"
        and obj = "[(''scheme'', PyStr ''upto'')]" and s = "''upto''"]
  note b = request_402_signals [OF s2 st, where self = test_client
        and kvs = "[(''x402Version'', PyInt 1),
                   (''accepts'', PyList [premium_json ''solana'' mainnet_usdc 300])]"
        and xs = "[premium_json ''solana'' mainnet_usdc 300]"
        and s = "''solana''" and obj =
        "[(''scheme'', PyStr ''exact''), (''network'', PyStr ''solana''),
             (''maxAmountRequired'', PyStr ''10000''), (''resource'', PyStr ''/premium''),
             (''description'', PyStr ''d''), (''mimeType'', PyStr ''application/json''),
             (''payTo'', PyStr ''0xAbc...''), (''maxTimeoutSeconds'', PyInt 300),
             (''asset'', PyStr mainnet_usdc)]"]
  note c = request_402_signals [OF s3 st, where self = test_client]
  note d = request_402_signals [OF s4 st, where self = test_client
        and kvs = "[(''x402Version'', PyInt 1)]"]
  have la: "lax_int mainnet_world = no_lax" "lax_int unknown_network_world = no_lax"
    by (simp_all add: scenario_defs)
  have vb: "model_validate no_lax (premium_json ''solana'' mainnet_usdc 300) = Inl ValidationError"
    using b by (simp add: la premium_json_def)
  show ?thesis
    using a b c d v vb
    by (simp add: la response_402_def body_402_def)
qed

text \<open>
  C5 as stated fails: a body without \<^verbatim>\<open>x402Version\<close> does not validate as a
  \<^verbatim>\<open>PaymentRequiredResponse\<close>, and \<open>request\<close> signals \<open>PaymentRequired\<close> with its requirement;
  a body that is a JSON list ends in \<^verbatim>\<open>TypeError\<close>, which is neither signal.
\<close>

theorem request_402_counterexample:
  "PaymentRequiredResponse_model_validate (lax_int no_version_world) no_version_body
     = Inl ValidationError
   \<and> fst (request test_client ''GET'' ''/premium'' no_kwargs no_version_world)
       = Inl (PaymentRequired no_version_body [mainnet_requirement])
   \<and> PaymentRequired no_version_body [mainnet_requirement]
       \<noteq> MalformedRequirementsResponse ValidationError
   \<and> fst (request test_client ''GET'' ''/premium'' no_kwargs list_body_world)
       = Inl (TypeError ''list indices must be integers or slices, not str'')"
  by (simp add: scenario_defs client_defs PaymentRequiredResponse_model_validate_def)

text \<open>
  C6. On a 402 with a requirement list that is not empty, \<open>auto_pay_request\<close> should pay
  the first requirement and resend exactly once. It does select the first requirement and
  the payment is signed, but \<open>to_header\<close> raises before the header is attached: the
  request is never sent again (one request in all) and the caller gets \<^verbatim>\<open>TypeError\<close>.
  For every requirement, amount and world \<open>pay_and_request\<close> sends no request at all.
\<close>

theorem auto_pay_request_never_resends:
  "fst (auto_pay_request test_client ''GET'' ''/premium'' no_kwargs mainnet_world)
     = Inl (TypeError ''Object of type PaymentScheme is not JSON serializable'')
   \<and> length (sent (snd (auto_pay_request test_client ''GET'' ''/premium'' no_kwargs mainnet_world))) = 1
   \<and> map (\<lambda>dm. msg_value (snd dm))
        (signed (snd (auto_pay_request test_client ''GET'' ''/premium'' no_kwargs mainnet_world)))
       = [''10000'']
   \<and> sent (snd (pay_and_request self m url requirement amount kw w)) = sent w"
  by (simp add: pay_and_request_sends_nothing) (simp add: scenario_defs client_defs signer_defs)

text \<open>
  C7. When \<open>request\<close> signals a 402 with an empty requirement list, \<open>auto_pay_request\<close>
  raises \<open>NoPaymentOptions\<close> and does nothing after the request: the signer is not called
  (nothing is signed, no randomness is drawn, the clock is not read).
\<close>

theorem empty_requirements_NoPaymentOptions:
  assumes "fst (request self method url kw w) = Inl (X402PaymentRequiredError msg [])"
  shows "fst (auto_pay_request self method url kw w) = Inl NoPaymentOptions
       \<and> snd (auto_pay_request self method url kw w) = snd (request self method url kw w)
       \<and> signed (snd (auto_pay_request self method url kw w)) = signed w
       \<and> entropy_used (snd (auto_pay_request self method url kw w)) = entropy_used w
       \<and> time_reads (snd (auto_pay_request self method url kw w)) = time_reads w"
proof -
  obtain w1 where r: "request self method url kw w = (Inl (X402PaymentRequiredError msg []), w1)"
    using assms by (cases "request self method url kw w") auto
  have a: "auto_pay_request self method url kw w = (Inl NoPaymentOptions, w1)"
    by (simp add: auto_pay_request_def r)
  have "w1 = snd (request self method url kw w)" by (simp add: r)
  then show ?thesis using request_frame [of self "method" url kw w] by (simp add: a)
qed

text \<open>C7, witness: a server whose 402 body has an empty \<^verbatim>\<open>accepts\<close> list.\<close>

theorem empty_requirements_NoPaymentOptions_witness:
  "fst (request test_client ''GET'' ''/premium'' no_kwargs empty_accepts_world)
     = Inl (X402PaymentRequiredError (Payment_required (body_402 [])) [])
   \<and> fst (auto_pay_request test_client ''GET'' ''/premium'' no_kwargs empty_accepts_world)
       = Inl NoPaymentOptions
   \<and> signed (snd (auto_pay_request test_client ''GET'' ''/premium'' no_kwargs empty_accepts_world)) = []
   \<and> entropy_used (snd (auto_pay_request test_client ''GET'' ''/premium'' no_kwargs empty_accepts_world)) = 0
   \<and> time_reads (snd (auto_pay_request test_client ''GET'' ''/premium'' no_kwargs empty_accepts_world)) = 0"
proof -
  have h: "fst (request test_client ''GET'' ''/premium'' no_kwargs empty_accepts_world)
     = Inl (X402PaymentRequiredError (Payment_required (body_402 [])) [])"
    by (simp add: scenario_defs client_defs)
  have w0: "signed empty_accepts_world = []" "entropy_used empty_accepts_world = 0"
    "time_reads empty_accepts_world = 0"
    by (simp_all add: empty_accepts_world_def paywall_world_def)
  from empty_requirements_NoPaymentOptions [OF h, unfolded w0] h show ?thesis by blast
qed

text \<open>
  C8. A payload returned by \<open>create_exact_payment\<close> without an amount carries
  \<open>max_amount_required\<close> as its value, in the payload and in the signed message; with an
  amount, it carries that amount.
\<close>

theorem payment_value_is_amount:
  "(create_exact_payment self requirement None w = (Inr p, w') \<longrightarrow>
       map_of (payload p) ''value'' = Some (PyStr (max_amount_required requirement))
     \<and> msg_value (last_signed_message w') = max_amount_required requirement)
 \<and> (create_exact_payment self requirement (Some a) w = (Inr q, v') \<longrightarrow>
       map_of (payload q) ''value'' = Some (PyStr a)
     \<and> msg_value (last_signed_message v') = a)"
proof (intro conjI impI)
  assume h: "create_exact_payment self requirement None w = (Inr p, w')"
  show "map_of (payload p) ''value'' = Some (PyStr (max_amount_required requirement))"
    by (subst create_exact_payment_Inr(1) [OF h]) simp
  show "msg_value (last_signed_message w') = max_amount_required requirement"
    by (simp add: create_exact_payment_Inr(2) [OF h])
next
  assume h: "create_exact_payment self requirement (Some a) w = (Inr q, v')"
  show "map_of (payload q) ''value'' = Some (PyStr a)"
    by (subst create_exact_payment_Inr(1) [OF h]) simp
  show "msg_value (last_signed_message v') = a"
    by (simp add: create_exact_payment_Inr(2) [OF h])
qed

text \<open>C8, witness: the first payment of the scenario, and one with the amount 2500.\<close>

theorem payment_value_is_amount_witness:
  "\<not> isl (fst first_payment)
   \<and> map_of (payload (projr (fst first_payment))) ''value'' = Some (PyStr ''10000'')
   \<and> msg_value (last_signed_message (snd first_payment)) = ''10000''
   \<and> \<not> isl (fst override_payment)
   \<and> map_of (payload (projr (fst override_payment))) ''value'' = Some (PyStr ''2500'')
   \<and> msg_value (last_signed_message (snd override_payment)) = ''2500''"
proof -
  have h1: "create_exact_payment (signer test_client) mainnet_requirement None mainnet_world
             = (Inr (projr (fst first_payment)), snd first_payment)"
    using returns_collapse [OF first_payment_returns] by (simp add: first_payment_def)
  have h2: "create_exact_payment (signer test_client) mainnet_requirement (Some ''2500'') mainnet_world
             = (Inr (projr (fst override_payment)), snd override_payment)"
    using returns_collapse [OF override_payment_returns] by (simp add: override_payment_def)
  from payment_value_is_amount [of "signer test_client" mainnet_requirement mainnet_world
             "projr (fst first_payment)" "snd first_payment" "''2500''"
             "projr (fst override_payment)" "snd override_payment"] h1 h2
  show ?thesis
    by (simp add: first_payment_returns override_payment_returns mainnet_requirement_def
          premium_requirement_def)
qed

text \<open>
  C9. The nonce of a returned payload is \<^verbatim>\<open>0x\<close> followed by exactly 64 lower-case hex
  digits, and two calls whose 32-byte draws differ return different nonces.
\<close>

theorem nonce_is_64_hex_digits:
  "(create_exact_payment self requirement amount w = (Inr p, w') \<longrightarrow>
      (\<exists>h. map_of (payload p) ''nonce'' = Some (PyStr (''0x'' @ h))
          \<and> length h = 64 \<and> list_all is_hex_digit h))
 \<and> (create_exact_payment self requirement amount w = (Inr p, w')
      \<and> create_exact_payment self requirement amount v = (Inr q, v')
      \<and> fst (token_bytes 32 w) \<noteq> fst (token_bytes 32 v) \<longrightarrow>
      map_of (payload p) ''nonce'' \<noteq> map_of (payload q) ''nonce'')"
proof (intro conjI impI)
  assume h: "create_exact_payment self requirement amount w = (Inr p, w')"
  have "map_of (payload p) ''nonce'' = Some (PyStr (''0x'' @ fst (token_hex 32 w)))"
    by (subst create_exact_payment_Inr(1) [OF h]) simp
  then show "\<exists>h. map_of (payload p) ''nonce'' = Some (PyStr (''0x'' @ h))
          \<and> length h = 64 \<and> list_all is_hex_digit h"
    using token_hex_32 [of w] by blast
next
  assume "create_exact_payment self requirement amount w = (Inr p, w')
      \<and> create_exact_payment self requirement amount v = (Inr q, v')
      \<and> fst (token_bytes 32 w) \<noteq> fst (token_bytes 32 v)"
  then have h1: "create_exact_payment self requirement amount w = (Inr p, w')"
    and h2: "create_exact_payment self requirement amount v = (Inr q, v')"
    and d: "fst (token_bytes 32 w) \<noteq> fst (token_bytes 32 v)"
    by simp_all
  have n1: "map_of (payload p) ''nonce'' = Some (PyStr (''0x'' @ fst (token_hex 32 w)))"
    by (subst create_exact_payment_Inr(1) [OF h1]) simp
  have n2: "map_of (payload q) ''nonce'' = Some (PyStr (''0x'' @ fst (token_hex 32 v)))"
    by (subst create_exact_payment_Inr(1) [OF h2]) simp
  show "map_of (payload p) ''nonce'' \<noteq> map_of (payload q) ''nonce''"
    using token_hex_inj [OF d] by (simp add: n1 n2)
qed

text \<open>C9, witness: two successive payments for the same requirement.\<close>

theorem nonce_is_64_hex_digits_witness:
  "\<not> isl (fst first_payment) \<and> \<not> isl (fst second_payment)
   \<and> fst (token_bytes 32 mainnet_world) \<noteq> fst (token_bytes 32 (snd first_payment))
   \<and> (\<exists>h. map_of (payload (projr (fst first_payment))) ''nonce'' = Some (PyStr (''0x'' @ h))
          \<and> length h = 64 \<and> list_all is_hex_digit h)
   \<and> map_of (payload (projr (fst first_payment))) ''nonce''
        \<noteq> map_of (payload (projr (fst second_payment))) ''nonce''"
proof -
  have h1: "create_exact_payment (signer test_client) mainnet_requirement None mainnet_world
             = (Inr (projr (fst first_payment)), snd first_payment)"
    using returns_collapse [OF first_payment_returns] by (simp add: first_payment_def)
  have h2: "create_exact_payment (signer test_client) mainnet_requirement None (snd first_payment)
             = (Inr (projr (fst second_payment)), snd second_payment)"
    using returns_collapse [OF second_payment_returns] by (simp add: second_payment_def)
  have d: "fst (token_bytes 32 mainnet_world) \<noteq> fst (token_bytes 32 (snd first_payment))"
    by (simp add: token_bytes_def first_payment_world mainnet_world_def paywall_world_def
          counting_entropy_def upt32)
  from nonce_is_64_hex_digits [of "signer test_client" mainnet_requirement None mainnet_world
             "projr (fst first_payment)" "snd first_payment" "snd first_payment"
             "projr (fst second_payment)" "snd second_payment"] h1 h2 d
  show ?thesis
    by (simp add: first_payment_returns second_payment_returns)
qed

text \<open>
  C10. With a caller's headers dict in the keyword arguments, \<open>pay_and_request\<close> should
  store \<^verbatim>\<open>X-PAYMENT\<close> into that dict. The right-hand side \<^verbatim>\<open>payment.to_header()\<close> raises before
  the store: the caller's dict is as it was, without \<^verbatim>\<open>X-PAYMENT\<close>, and nothing is sent.
  For every caller's dict \<open>r\<close>, requirement and world the heap is left as it was.
\<close>

theorem pay_and_request_leaves_headers:
  "fst (pay_and_request test_client ''GET'' ''/premium'' mainnet_requirement None headers_kwargs
          mainnet_world)
     = Inl (TypeError ''Object of type PaymentScheme is not JSON serializable'')
   \<and> heap (snd (pay_and_request test_client ''GET'' ''/premium'' mainnet_requirement None
                   headers_kwargs mainnet_world)) 0
       = Some [''Accept'' \<mapsto> ''application/json'']
   \<and> sent (snd (pay_and_request test_client ''GET'' ''/premium'' mainnet_requirement None
                   headers_kwargs mainnet_world)) = []
   \<and> heap (snd (pay_and_request self m url requirement amount (kw\<lparr>kw_headers := Some r\<rparr>) w))
       = heap w"
  by (simp add: pay_and_request_keeps_heap) (simp add: scenario_defs client_defs signer_defs)

end
